theory Spec2Isabelle
  imports Main
begin

section \<open>oauth2l: fetching and inspecting OAuth2 credentials\<close>

text \<open>
  A shallow embedding of \<^verbatim>\<open>oauth2l/__init__.py\<close>. Every function of the module is a
  HOL function of the same name (the leading underscore of the private functions is
  dropped, since an Isabelle name cannot start with one). Exceptions are values of the
  type \<open>error\<close>; calls that leave the process (files, the credential store, the HTTP
  transport, the refresh of a credential, standard output) are recorded, in order, in a
  list of events returned beside the result.
\<close>

subsection \<open>Strings\<close>

text \<open>\<^verbatim>\<open>s.startswith(p)\<close>.\<close>

definition startswith :: "string \<Rightarrow> string \<Rightarrow> bool" where
  "startswith s p = (take (length p) s = p)"

text \<open>\<^verbatim>\<open>p in s\<close> for two strings: \<open>p\<close> occurs in \<open>s\<close> as a contiguous block.\<close>

fun str_contains :: "string \<Rightarrow> string \<Rightarrow> bool" where
  "str_contains [] p = (p = [])"
| "str_contains (c # cs) p = (startswith (c # cs) p \<or> str_contains cs p)"

text \<open>\<^verbatim>\<open>s.lower()\<close> on the ASCII letters.\<close>

definition lower_char :: "char \<Rightarrow> char" where
  "lower_char c =
     (let n = (of_char c :: nat) in if 65 \<le> n \<and> n \<le> 90 then char_of (n + 32) else c)"

definition lower :: "string \<Rightarrow> string" where
  "lower s = map lower_char s"

subsection \<open>Scope expansion\<close>

text \<open>
  \<^verbatim>\<open>
  def _ExpandScopes(scopes):
      scope_prefix = 'https://www.googleapis.com/auth/'
      return [s if s.startswith('https://') else scope_prefix + s
              for s in scopes]
  \<close>
  The function calls nothing outside itself and builds a new list: its model takes the
  scopes only and returns the expanded scopes only.
\<close>

definition scope_prefix :: string where
  "scope_prefix = ''https://www.googleapis.com/auth/''"

definition ExpandScopes :: "string list \<Rightarrow> string list" where
  "ExpandScopes scopes =
     map (\<lambda>s. if startswith s ''https://'' then s else scope_prefix @ s) scopes"

subsection \<open>Python values\<close>

text \<open>
  What \<^verbatim>\<open>json.loads\<close> returns: \<^verbatim>\<open>None\<close>, a boolean, a number (integers only here), a
  string, a list, or a dict, kept as a list of its items.
\<close>

datatype json =
    JNull
  | JBool bool
  | JNum int
  | JStr string
  | JArr "json list"
  | JObj "(string \<times> json) list"

text \<open>
  Python's truth test (\<^verbatim>\<open>bool(x)\<close>, \<^verbatim>\<open>not x\<close>): a dict is true exactly when it has an
  item.
\<close>

fun py_bool :: "json \<Rightarrow> bool" where
  "py_bool JNull = False"
| "py_bool (JBool b) = b"
| "py_bool (JNum n) = (n \<noteq> 0)"
| "py_bool (JStr s) = (s \<noteq> [])"
| "py_bool (JArr xs) = (xs \<noteq> [])"
| "py_bool (JObj kvs) = (kvs \<noteq> [])"

datatype text_or_bytes = Text string | Bytes string

record response =
  status_code :: int
  content :: text_or_bytes

definition OK :: int where
  "OK = 200"

definition BAD_REQUEST :: int where
  "BAD_REQUEST = 400"

text \<open>
  A credential of the collaborating library, as far as this module reads it: the access
  token, what \<^verbatim>\<open>to_json()\<close> gives, and the module and name of its class.
\<close>

record credentials =
  access_token :: string
  to_json :: text_or_bytes
  type_module :: string
  type_name :: string

record client_info =
  client_id :: json
  client_secret :: json
  user_agent :: string

text \<open>
  The exceptions. \<open>ValueError\<close> is the one the module raises itself, at its four
  configuration checks (a file that cannot be found, a client ID of the wrong kind, an
  invalid JSON file, no scopes, an unknown format); \<open>HttpError\<close> is
  \<^verbatim>\<open>apitools_base.HttpError.FromResponse(response)\<close>; \<open>IOError\<close> is what \<^verbatim>\<open>open\<close>
  raises on a path with no file; \<open>CollaboratorError\<close> is whatever else a collaborator
  raises.
\<close>

datatype error =
    ValueError string
  | IOError string
  | KeyError string
  | TypeError
  | AttributeError
  | UnicodeDecodeError
  | HttpError response
  | CollaboratorError string

text \<open>The configuration errors of the specification are the \<open>ValueError\<close>s.\<close>

fun ConfigurationError :: "error \<Rightarrow> bool" where
  "ConfigurationError (ValueError m) = True"
| "ConfigurationError e = False"

text \<open>The transport errors of the specification are the \<open>HttpError\<close>s.\<close>

fun TransportError :: "error \<Rightarrow> bool" where
  "TransportError (HttpError r) = True"
| "TransportError e = False"

text \<open>\<^verbatim>\<open>obj[key]\<close> with a string key: only a dict can be indexed by a string.\<close>

fun getitem :: "json \<Rightarrow> string \<Rightarrow> error + json" where
  "getitem (JObj kvs) k = (case map_of kvs k of None \<Rightarrow> Inl (KeyError k) | Some v \<Rightarrow> Inr v)"
| "getitem j k = Inl TypeError"

text \<open>
  \<^verbatim>\<open>key in obj\<close> with a string key: a key of a dict, an element of a list, a substring of
  a string; the other values are not iterable.
\<close>

fun contains :: "json \<Rightarrow> string \<Rightarrow> error + bool" where
  "contains (JObj kvs) k = Inr (map_of kvs k \<noteq> None)"
| "contains (JArr xs) k = Inr (JStr k \<in> set xs)"
| "contains (JStr s) k = Inr (str_contains s k)"
| "contains j k = Inl TypeError"

text \<open>\<^verbatim>\<open>obj.get(key, default)\<close>: a method of dicts only.\<close>

fun dict_get :: "json \<Rightarrow> string \<Rightarrow> json \<Rightarrow> error + json" where
  "dict_get (JObj kvs) k d = Inr (case map_of kvs k of None \<Rightarrow> d | Some v \<Rightarrow> v)"
| "dict_get j k d = Inl AttributeError"

subsection \<open>Command-line arguments\<close>

text \<open>
  The namespace that \<^verbatim>\<open>_GetParser().parse_args\<close> returns. \<open>args_func\<close> is the handler
  that \<^verbatim>\<open>set_defaults(func=...)\<close> stores for the subcommand; a field that a subcommand
  does not declare is not read by its handler.
\<close>

datatype handler = FetchFn | HeaderFn | InfoFn | TestFn

record args =
  args_command :: string
  args_func :: handler
  args_credentials_filename :: string
  args_json :: string
  args_credentials_format :: string
  args_scope :: "string list"
  args_format :: string
  args_access_token :: string

subsection \<open>The world outside the module\<close>

text \<open>
  Everything the module calls and does not define is a field of the environment:
  \<^item> \<open>files\<close>: the file system, a map from a path to the text of the file there
    (\<^verbatim>\<open>os.path.exists\<close>, \<^verbatim>\<open>open\<close>);
  \<^item> \<open>expanduser\<close>: \<^verbatim>\<open>os.path.expanduser\<close>;
  \<^item> \<open>get_data\<close>: \<^verbatim>\<open>pkgutil.get_data('apitools.data', 'apitools_client_secrets.json')\<close>;
  \<^item> \<open>decode\<close>: \<^verbatim>\<open>bytes.decode('utf8')\<close>, \<open>None\<close> when the bytes are not UTF-8;
  \<^item> \<open>loads\<close>: \<^verbatim>\<open>json.loads\<close>, \<open>Inl m\<close> when it raises \<^verbatim>\<open>ValueError(m)\<close>;
  \<^item> \<open>dumps\<close>: \<^verbatim>\<open>json.dumps(data, sort_keys=True, indent=..., separators=(.., ..))\<close>;
  \<^item> \<open>GetCredentials\<close>: \<^verbatim>\<open>apitools_base.GetCredentials\<close>, the credential store and
    authorization flow;
  \<^item> \<open>MakeRequest\<close>: \<^verbatim>\<open>apitools_base.MakeRequest(apitools_base.GetHttp(), Request(url))\<close>;
  \<^item> \<open>refresh\<close>: \<^verbatim>\<open>credentials.refresh(apitools_base.GetHttp())\<close>, which updates the
    credential in place: the model returns the updated credential;
  \<^item> \<open>str_of\<close>: \<^verbatim>\<open>str(e)\<close> of an exception.
\<close>

record env =
  files :: "string \<rightharpoonup> string"
  expanduser :: "string \<Rightarrow> string"
  get_data :: "error + string"
  decode :: "string \<Rightarrow> string option"
  loads :: "string \<Rightarrow> string + json"
  dumps :: "json \<Rightarrow> nat option \<Rightarrow> string \<Rightarrow> string \<Rightarrow> string"
  GetCredentials ::
    "string \<Rightarrow> string list \<Rightarrow> string \<Rightarrow> string \<Rightarrow> string list \<Rightarrow> client_info
       \<Rightarrow> error + credentials"
  MakeRequest :: "string \<Rightarrow> error + response"
  refresh :: "credentials \<Rightarrow> error + credentials"
  str_of :: "error \<Rightarrow> string"

text \<open>What a run does outside the module, in the order it does it.\<close>

datatype event =
    OpenFile string
  | CallGetCredentials string "string list" string string "string list" client_info
  | CallMakeRequest string
  | CallRefresh credentials
  | Print string

text \<open>
  A computation returns an exception or a value, and the events it caused. \<open>andthen\<close>
  is sequencing: an exception of the first part ends the run there.
\<close>

type_synonym 'a run = "(error + 'a) \<times> event list"

definition ret :: "'a \<Rightarrow> 'a run" where
  "ret x = (Inr x, [])"

definition throw :: "error \<Rightarrow> 'a run" where
  "throw e = (Inl e, [])"

definition lift :: "error + 'a \<Rightarrow> 'a run" where
  "lift r = (r, [])"

definition effect :: "event \<Rightarrow> error + 'a \<Rightarrow> 'a run" where
  "effect ev r = (r, [ev])"

definition andthen :: "'a run \<Rightarrow> ('a \<Rightarrow> 'b run) \<Rightarrow> 'b run" where
  "andthen m f =
     (case m of
        (Inl e, tr) \<Rightarrow> (Inl e, tr)
      | (Inr x, tr) \<Rightarrow> (case f x of (r, tr') \<Rightarrow> (r, tr @ tr')))"

text \<open>The calls that reach the credential store, the introspection endpoint or the
  token endpoint.\<close>

fun is_network :: "event \<Rightarrow> bool" where
  "is_network (CallGetCredentials p s f k a c) = True"
| "is_network (CallMakeRequest u) = True"
| "is_network (CallRefresh c) = True"
| "is_network ev = False"

definition network_calls :: "event list \<Rightarrow> event list" where
  "network_calls tr = filter is_network tr"

fun printed :: "event \<Rightarrow> string list" where
  "printed (Print s) = [s]"
| "printed ev = []"

text \<open>The lines written to standard output.\<close>

definition stdout :: "event list \<Rightarrow> string list" where
  "stdout tr = concat (map printed tr)"

text \<open>\<^verbatim>\<open>open(path)\<close> and reading the file.\<close>

definition open_file :: "env \<Rightarrow> string \<Rightarrow> string run" where
  "open_file env path =
     effect (OpenFile path)
       (case files env path of None \<Rightarrow> Inl (IOError path) | Some text \<Rightarrow> Inr text)"

text \<open>\<^verbatim>\<open>json.loads(text)\<close>, with its exception.\<close>

definition json_loads :: "env \<Rightarrow> string \<Rightarrow> error + json" where
  "json_loads env text = (case loads env text of Inl m \<Rightarrow> Inl (ValueError m) | Inr j \<Rightarrow> Inr j)"

subsection \<open>Client information\<close>

text \<open>
  \<^verbatim>\<open>
  def GetDefaultClientInfo():
      client_secrets_json = pkgutil.get_data(
          'apitools.data', 'apitools_client_secrets.json').decode('utf8')
      client_secrets = json.loads(client_secrets_json)['installed']
      return {
          'client_id': client_secrets['client_id'],
          'client_secret': client_secrets['client_secret'],
          'user_agent': 'apitools/0.2 oauth2l/0.1',
      }
  \<close>
\<close>

definition decode_utf8 :: "env \<Rightarrow> string \<Rightarrow> error + string" where
  "decode_utf8 env b = (case decode env b of None \<Rightarrow> Inl UnicodeDecodeError | Some t \<Rightarrow> Inr t)"

definition installed_client_info :: "json \<Rightarrow> client_info run" where
  "installed_client_info client_secrets =
     andthen (lift (getitem client_secrets ''client_id'')) (\<lambda>cid.
     andthen (lift (getitem client_secrets ''client_secret'')) (\<lambda>sec.
       ret \<lparr>client_id = cid, client_secret = sec,
            user_agent = ''apitools/0.2 oauth2l/0.1''\<rparr>))"

definition GetDefaultClientInfo :: "env \<Rightarrow> client_info run" where
  "GetDefaultClientInfo env =
     andthen (lift (get_data env)) (\<lambda>data.
     andthen (lift (decode_utf8 env data)) (\<lambda>client_secrets_json.
     andthen (lift (json_loads env client_secrets_json)) (\<lambda>parsed.
     andthen (lift (getitem parsed ''installed'')) (\<lambda>client_secrets.
       installed_client_info client_secrets))))"

text \<open>
  \<^verbatim>\<open>
  def GetClientInfoFromFlags(client_secrets):
      if client_secrets:
          client_secrets_path = os.path.expanduser(client_secrets)
          if not os.path.exists(client_secrets_path):
              raise ValueError(
                  'Cannot find file: {0}'.format(client_secrets))
          with open(client_secrets_path) as client_secrets_file:
              client_secrets = json.load(client_secrets_file)
          if 'installed' not in client_secrets:
              raise ValueError('Provided client ID must be for an installed app')
          client_secrets = client_secrets['installed']
          return {... as above ...}
      else:
          return GetDefaultClientInfo()
  \<close>
\<close>

definition GetClientInfoFromFlags :: "env \<Rightarrow> string \<Rightarrow> client_info run" where
  "GetClientInfoFromFlags env client_secrets =
     (if client_secrets \<noteq> [] then
        (let client_secrets_path = expanduser env client_secrets in
         if files env client_secrets_path = None
         then throw (ValueError (''Cannot find file: '' @ client_secrets))
         else
           andthen (open_file env client_secrets_path) (\<lambda>text.
           andthen (lift (json_loads env text)) (\<lambda>parsed.
           andthen (lift (contains parsed ''installed'')) (\<lambda>has_installed.
             if \<not> has_installed
             then throw (ValueError ''Provided client ID must be for an installed app'')
             else
               andthen (lift (getitem parsed ''installed'')) (\<lambda>installed.
                 installed_client_info installed)))))
      else GetDefaultClientInfo env)"

subsection \<open>Formatting\<close>

text \<open>
  \<^verbatim>\<open>
  def _PrettyJson(data):
      return json.dumps(data, sort_keys=True, indent=4, separators=(',', ': '))

  def _CompactJson(data):
      return json.dumps(data, sort_keys=True, separators=(',', ':'))

  def _AsText(text_or_bytes):
      if isinstance(text_or_bytes, bytes):
          return text_or_bytes.decode('utf8')
      return text_or_bytes
  \<close>
\<close>

definition PrettyJson :: "env \<Rightarrow> json \<Rightarrow> string" where
  "PrettyJson env data = dumps env data (Some 4) '','' '': ''"

definition CompactJson :: "env \<Rightarrow> json \<Rightarrow> string" where
  "CompactJson env data = dumps env data None '','' '':''"

fun AsText :: "env \<Rightarrow> text_or_bytes \<Rightarrow> error + string" where
  "AsText env (Bytes b) = decode_utf8 env b"
| "AsText env (Text t) = Inr t"

text \<open>\<^verbatim>\<open>json.loads(_AsText(x))\<close>, as \<^verbatim>\<open>_Format\<close> and \<^verbatim>\<open>_GetTokenInfo\<close> call it.\<close>

definition loads_AsText :: "env \<Rightarrow> text_or_bytes \<Rightarrow> error + json" where
  "loads_AsText env x = (case AsText env x of Inl e \<Rightarrow> Inl e | Inr t \<Rightarrow> json_loads env t)"

definition newline :: string where
  "newline = [CHR 0x0A]"

text \<open>
  \<^verbatim>\<open>
  def _Format(fmt, credentials):
      if fmt == 'bare':
          return credentials.access_token
      elif fmt == 'header':
          return 'Authorization: Bearer %s' % credentials.access_token
      elif fmt == 'json':
          return _PrettyJson(json.loads(_AsText(credentials.to_json())))
      elif fmt == 'json_compact':
          return _CompactJson(json.loads(_AsText(credentials.to_json())))
      elif fmt == 'pretty':
          format_str = textwrap.dedent('\n'.join([
              'Fetched credentials of type:',
              '  {credentials_type.__module__}.{credentials_type.__name__}',
              'Access token:',
              '  {credentials.access_token}',
          ]))
          return format_str.format(credentials=credentials,
                                   credentials_type=type(credentials))
      raise ValueError('Unknown format: {0}'.format(fmt))

  _FORMATS = set(('bare', 'header', 'json', 'json_compact', 'pretty'))
  \<close>
  \<^verbatim>\<open>textwrap.dedent\<close> leaves the template as it is: its first line is not indented, so
  the lines have no common indentation.
\<close>

definition Format :: "env \<Rightarrow> string \<Rightarrow> credentials \<Rightarrow> error + string" where
  "Format env fmt creds =
     (if fmt = ''bare'' then Inr (access_token creds)
      else if fmt = ''header'' then Inr (''Authorization: Bearer '' @ access_token creds)
      else if fmt = ''json'' then
        (case loads_AsText env (to_json creds) of
           Inl e \<Rightarrow> Inl e | Inr j \<Rightarrow> Inr (PrettyJson env j))
      else if fmt = ''json_compact'' then
        (case loads_AsText env (to_json creds) of
           Inl e \<Rightarrow> Inl e | Inr j \<Rightarrow> Inr (CompactJson env j))
      else if fmt = ''pretty'' then
        Inr (''Fetched credentials of type:'' @ newline @
             ''  '' @ type_module creds @ ''.'' @ type_name creds @ newline @
             ''Access token:'' @ newline @
             ''  '' @ access_token creds)
      else Inl (ValueError (''Unknown format: '' @ fmt)))"

definition FORMATS :: "string set" where
  "FORMATS = {''bare'', ''header'', ''json'', ''json_compact'', ''pretty''}"

subsection \<open>Token introspection\<close>

text \<open>
  \<^verbatim>\<open>
  _OAUTH2_TOKENINFO_TEMPLATE = (
      'https://www.googleapis.com/oauth2/v2/tokeninfo'
      '?access_token={access_token}'
  )

  def _GetTokenInfo(access_token):
      url = _OAUTH2_TOKENINFO_TEMPLATE.format(access_token=access_token)
      response = apitools_base.MakeRequest(
          apitools_base.GetHttp(), apitools_base.Request(url))
      if response.status_code not in [http_client.OK, http_client.BAD_REQUEST]:
          raise apitools_base.HttpError.FromResponse(response)
      if response.status_code == http_client.BAD_REQUEST:
          return {}
      return json.loads(_AsText(response.content))

  def _TestToken(access_token):
      return bool(_GetTokenInfo(access_token))
  \<close>
\<close>

definition OAUTH2_TOKENINFO_TEMPLATE :: "string \<Rightarrow> string" where
  "OAUTH2_TOKENINFO_TEMPLATE token =
     ''https://www.googleapis.com/oauth2/v2/tokeninfo'' @ ''?access_token='' @ token"

definition GetTokenInfo :: "env \<Rightarrow> string \<Rightarrow> json run" where
  "GetTokenInfo env token =
     (let url = OAUTH2_TOKENINFO_TEMPLATE token in
      andthen (effect (CallMakeRequest url) (MakeRequest env url)) (\<lambda>response.
        if status_code response \<notin> set [OK, BAD_REQUEST]
        then throw (HttpError response)
        else if status_code response = BAD_REQUEST
        then ret (JObj [])
        else lift (loads_AsText env (content response))))"

definition TestToken :: "env \<Rightarrow> string \<Rightarrow> bool run" where
  "TestToken env token =
     andthen (GetTokenInfo env token) (\<lambda>tokeninfo. ret (py_bool tokeninfo))"

subsection \<open>Acquiring a credential\<close>

text \<open>
  \<^verbatim>\<open>
  def _ProcessJsonArgs(args):
      if not args.json:
          return '', ''
      with open(args.json, 'rU') as f:
          try:
              contents = json.load(f)
          except ValueError:
              raise ValueError('Invalid JSON file: {}'.format(args.json))
      if contents.get('type', '') == 'service_account':
          return '', args.json
      else:
          return args.json, ''
  \<close>
\<close>

definition ProcessJsonArgs :: "env \<Rightarrow> args \<Rightarrow> (string \<times> string) run" where
  "ProcessJsonArgs env a =
     (if args_json a = [] then ret ('''', '''')
      else
        andthen (open_file env (args_json a)) (\<lambda>text.
          case loads env text of
            Inl m \<Rightarrow> throw (ValueError (''Invalid JSON file: '' @ args_json a))
          | Inr contents \<Rightarrow>
              andthen (lift (dict_get contents ''type'' (JStr ''''))) (\<lambda>t.
                if t = JStr ''service_account'' then ret ('''', args_json a)
                else ret (args_json a, ''''))))"

text \<open>
  \<^verbatim>\<open>client_info or GetClientInfoFromFlags(client_secrets)\<close>: the caller's client
  information when it gave one (\<open>None\<close> stands for \<^verbatim>\<open>None\<close> and for the empty dict).
\<close>

definition resolve_client_info :: "env \<Rightarrow> client_info option \<Rightarrow> string \<Rightarrow> client_info run" where
  "resolve_client_info env client_info client_secrets =
     (case client_info of
        Some ci \<Rightarrow> ret ci
      | None \<Rightarrow> GetClientInfoFromFlags env client_secrets)"

text \<open>\<^verbatim>\<open>credentials_filename or args.credentials_filename\<close>.\<close>

definition resolve_filename :: "string option \<Rightarrow> args \<Rightarrow> string" where
  "resolve_filename credentials_filename a =
     (case credentials_filename of
        Some f \<Rightarrow> if f \<noteq> [] then f else args_credentials_filename a
      | None \<Rightarrow> args_credentials_filename a)"

text \<open>
  \<^verbatim>\<open>
  def _FetchCredentials(args, client_info=None, credentials_filename=None):
      client_secrets, service_account_json_keyfile = _ProcessJsonArgs(args)
      client_info = client_info or GetClientInfoFromFlags(client_secrets)
      scopes = _ExpandScopes(args.scope)
      if not scopes:
          raise ValueError('No scopes provided')
      credentials_filename = credentials_filename or args.credentials_filename
      credentials = apitools_base.GetCredentials(
          'oauth2l', scopes, credentials_filename=credentials_filename,
          service_account_json_keyfile=service_account_json_keyfile,
          oauth2client_args=['--noauth_local_webserver'], **client_info)
      if not _TestToken(credentials.access_token):
          credentials.refresh(apitools_base.GetHttp())
      return credentials
  \<close>
\<close>

definition FetchCredentials ::
  "env \<Rightarrow> args \<Rightarrow> client_info option \<Rightarrow> string option \<Rightarrow> credentials run" where
  "FetchCredentials env a client_info credentials_filename =
     andthen (ProcessJsonArgs env a) (\<lambda>(client_secrets, service_account_json_keyfile).
     andthen (resolve_client_info env client_info client_secrets) (\<lambda>client_info.
       let scopes = ExpandScopes (args_scope a) in
       if scopes = [] then throw (ValueError ''No scopes provided'')
       else
         let credentials_filename = resolve_filename credentials_filename a in
         andthen
           (effect
              (CallGetCredentials ''oauth2l'' scopes credentials_filename
                 service_account_json_keyfile [''--noauth_local_webserver''] client_info)
              (GetCredentials env ''oauth2l'' scopes credentials_filename
                 service_account_json_keyfile [''--noauth_local_webserver''] client_info))
           (\<lambda>credentials.
         andthen (TestToken env (access_token credentials)) (\<lambda>valid.
           if \<not> valid
           then effect (CallRefresh credentials) (refresh env credentials)
           else ret credentials))))"

subsection \<open>The commands\<close>

text \<open>
  \<^verbatim>\<open>
  def _Fetch(args):
      credentials = _FetchCredentials(args)
      print(_Format(args.credentials_format.lower(), credentials))

  def _Header(args):
      print(_Format('header', _FetchCredentials(args)))

  def _Info(args):
      tokeninfo = _GetTokenInfo(args.access_token)
      if not tokeninfo:
          return 1
      if args.format == 'json':
          print(_PrettyJson(tokeninfo))
      else:
          print(_CompactJson(tokeninfo))

  def _Test(args):
      return 1 - (_TestToken(args.access_token))
  \<close>
  A handler returns an integer or, when it runs off its end, \<^verbatim>\<open>None\<close>.
\<close>

definition print :: "string \<Rightarrow> int option run" where
  "print s = effect (Print s) (Inr None)"

definition Fetch :: "env \<Rightarrow> args \<Rightarrow> int option run" where
  "Fetch env a =
     andthen (FetchCredentials env a None None) (\<lambda>creds.
     andthen (lift (Format env (lower (args_credentials_format a)) creds)) print)"

definition Header :: "env \<Rightarrow> args \<Rightarrow> int option run" where
  "Header env a =
     andthen (FetchCredentials env a None None) (\<lambda>creds.
     andthen (lift (Format env ''header'' creds)) print)"

definition Info :: "env \<Rightarrow> args \<Rightarrow> int option run" where
  "Info env a =
     andthen (GetTokenInfo env (args_access_token a)) (\<lambda>tokeninfo.
       if \<not> py_bool tokeninfo then ret (Some 1)
       else if args_format a = ''json'' then print (PrettyJson env tokeninfo)
       else print (CompactJson env tokeninfo))"

definition Test :: "env \<Rightarrow> args \<Rightarrow> int option run" where
  "Test env a =
     andthen (TestToken env (args_access_token a)) (\<lambda>valid.
       ret (Some (1 - (if valid then 1 else 0))))"

text \<open>
  \<^verbatim>\<open>
  def main(argv=None):
      argv = argv or sys.argv
      args = _GetParser().parse_args(argv[1:])
      try:
          exit_code = args.func(args)
      except BaseException as e:
          print('Error encountered in {0} operation: {1}'.format(
              args.command, e))
          return 1
      return exit_code

  if __name__ == '__main__':
      sys.exit(main(sys.argv))
  \<close>
  The model starts from the parsed arguments. \<^verbatim>\<open>sys.exit(None)\<close> is exit status 0.
\<close>

fun call_func :: "handler \<Rightarrow> env \<Rightarrow> args \<Rightarrow> int option run" where
  "call_func FetchFn = Fetch"
| "call_func HeaderFn = Header"
| "call_func InfoFn = Info"
| "call_func TestFn = Test"

definition main :: "env \<Rightarrow> args \<Rightarrow> int option \<times> event list" where
  "main env a =
     (case call_func (args_func a) env a of
        (Inl e, tr) \<Rightarrow>
          (Some 1,
           tr @ [Print (''Error encountered in '' @ args_command a @ '' operation: '' @
                        str_of env e)])
      | (Inr exit_code, tr) \<Rightarrow> (exit_code, tr))"

fun exit_status :: "int option \<Rightarrow> int" where
  "exit_status None = 0"
| "exit_status (Some n) = n"

subsection \<open>An example world\<close>

text \<open>
  A world for concrete runs: the credential store hands out a credential whose token
  \<open>ya29.stale\<close> the introspection endpoint rejects with status 400; the refresh
  replaces it by \<open>ya29.valid\<close>, which the endpoint accepts; any other token gets
  status 503. \<open>list.json\<close> holds a JSON list, \<open>broken.json\<close> does not parse, and
  there is no other file.
\<close>

definition example_credentials :: credentials where
  "example_credentials =
     \<lparr>access_token = ''ya29.stale'', to_json = Text ''{credentials}'',
      type_module = ''oauth2client.client'', type_name = ''OAuth2Credentials''\<rparr>"

definition example_loads :: "string \<Rightarrow> string + json" where
  "example_loads text =
     (if text = ''{secrets}'' then
        Inr (JObj [(''installed'',
               JObj [(''client_id'', JStr ''id''), (''client_secret'', JStr ''secret'')])])
      else if text = ''{info}'' then Inr (JObj [(''expires_in'', JNum 3520)])
      else if text = ''[]'' then Inr (JArr [])
      else Inl ''No JSON object could be decoded'')"

definition example_MakeRequest :: "string \<Rightarrow> error + response" where
  "example_MakeRequest url =
     (if url = OAUTH2_TOKENINFO_TEMPLATE ''ya29.valid''
      then Inr \<lparr>status_code = 200, content = Text ''{info}''\<rparr>
      else if url = OAUTH2_TOKENINFO_TEMPLATE ''ya29.stale''
      then Inr \<lparr>status_code = 400, content = Text ''''\<rparr>
      else Inr \<lparr>status_code = 503, content = Text ''''\<rparr>)"

definition example_env :: env where
  "example_env =
     \<lparr>files = [''list.json'' \<mapsto> ''[]'', ''broken.json'' \<mapsto> ''{''],
      expanduser = (\<lambda>path. path),
      get_data = Inr ''{secrets}'',
      decode = Some,
      loads = example_loads,
      dumps = (\<lambda>data indent item_sep key_sep.
                 case indent of None \<Rightarrow> ''compact'' | Some n \<Rightarrow> ''pretty''),
      GetCredentials = (\<lambda>package scopes fname keyfile oauth2client_args ci.
                 Inr example_credentials),
      MakeRequest = example_MakeRequest,
      refresh = (\<lambda>creds. Inr (creds\<lparr>access_token := ''ya29.valid''\<rparr>)),
      str_of = (\<lambda>e. ''error'')\<rparr>"

definition example_args :: args where
  "example_args =
     \<lparr>args_command = ''fetch'', args_func = FetchFn, args_credentials_filename = '''',
      args_json = '''', args_credentials_format = ''pretty'', args_scope = [''bigquery''],
      args_format = ''json'', args_access_token = ''ya29.valid''\<rparr>"

definition example_client_info :: client_info where
  "example_client_info =
     \<lparr>client_id = JStr ''id'', client_secret = JStr ''secret'',
      user_agent = ''apitools/0.2 oauth2l/0.1''\<rparr>"

section \<open>Properties\<close>

subsection \<open>Scope expansion\<close>

lemma startswith_scope_prefix: "startswith (scope_prefix @ s) ''https://''"
  by (simp add: startswith_def scope_prefix_def)

text \<open>
  Claim C8. For every sequence of scope strings, \<open>ExpandScopes\<close> returns a sequence of
  the same length in the same order: the element at each position is the input's element
  at that position when it starts with \<open>https://\<close>, and the fixed base
  \<open>https://www.googleapis.com/auth/\<close> followed by it otherwise. The function is a
  pure transformation of its argument.
\<close>

theorem ExpandScopes_pointwise:
  "length (ExpandScopes scopes) = length scopes \<and>
   (\<forall>i < length scopes.
      ExpandScopes scopes ! i =
        (if startswith (scopes ! i) ''https://'' then scopes ! i
         else ''https://www.googleapis.com/auth/'' @ scopes ! i))"
  by (simp add: ExpandScopes_def scope_prefix_def)

theorem ExpandScopes_pointwise_witness:
  "ExpandScopes [''bigquery'', ''https://www.googleapis.com/auth/drive''] ! 0
     = ''https://www.googleapis.com/auth/bigquery'' \<and>
   ExpandScopes [''bigquery'', ''https://www.googleapis.com/auth/drive''] ! 1
     = ''https://www.googleapis.com/auth/drive'' \<and>
   length (ExpandScopes [''bigquery'', ''https://www.googleapis.com/auth/drive'']) = 2"
proof -
  let ?s = "[''bigquery'', ''https://www.googleapis.com/auth/drive'']"
  note h = ExpandScopes_pointwise [of ?s]
  from h have len: "length (ExpandScopes ?s) = 2" by simp
  from h have "ExpandScopes ?s ! 0 =
      (if startswith (?s ! 0) ''https://'' then ?s ! 0
       else ''https://www.googleapis.com/auth/'' @ ?s ! 0)"
    by (simp del: nth_Cons_0)
  then have a: "ExpandScopes ?s ! 0 = ''https://www.googleapis.com/auth/bigquery''"
    by (simp add: startswith_def)
  from h have "ExpandScopes ?s ! 1 =
      (if startswith (?s ! 1) ''https://'' then ?s ! 1
       else ''https://www.googleapis.com/auth/'' @ ?s ! 1)"
    by (simp del: nth_Cons_0)
  then have b: "ExpandScopes ?s ! 1 = ''https://www.googleapis.com/auth/drive''"
    by (simp add: startswith_def)
  from a b len show ?thesis by simp
qed

text \<open>
  Claim C9. Expanding twice is expanding once, and every expanded scope starts with
  \<open>https://\<close>.
\<close>

theorem ExpandScopes_idempotent:
  "ExpandScopes (ExpandScopes s) = ExpandScopes s \<and>
   list_all (\<lambda>x. startswith x ''https://'') (ExpandScopes s)"
proof (induction s)
  case Nil
  show ?case by (simp add: ExpandScopes_def)
next
  case (Cons a s)
  then show ?case
    using startswith_scope_prefix [of a] by (simp add: ExpandScopes_def)
qed

subsection \<open>Runs\<close>

lemma fst_andthen:
  "fst (andthen m f) = (case fst m of Inl e \<Rightarrow> Inl e | Inr x \<Rightarrow> fst (f x))"
  by (cases m) (auto simp: andthen_def split: sum.splits prod.splits)

lemma snd_andthen:
  "snd (andthen m f) = (case fst m of Inl e \<Rightarrow> snd m | Inr x \<Rightarrow> snd m @ snd (f x))"
  by (cases m) (auto simp: andthen_def split: sum.splits prod.splits)

lemma run_simps [simp]:
  "fst (ret x) = Inr x" "snd (ret x) = []"
  "fst (throw e) = Inl e" "snd (throw e) = []"
  "fst (lift r) = r" "snd (lift r) = []"
  "fst (effect ev r) = r" "snd (effect ev r) = [ev]"
  by (simp_all add: ret_def throw_def lift_def effect_def)

lemma network_calls_simps [simp]:
  "network_calls [] = []"
  "network_calls (xs @ ys) = network_calls xs @ network_calls ys"
  "network_calls (OpenFile p # xs) = network_calls xs"
  "network_calls (Print s # xs) = network_calls xs"
  "network_calls (CallMakeRequest u # xs) = CallMakeRequest u # network_calls xs"
  "network_calls (CallRefresh c # xs) = CallRefresh c # network_calls xs"
  "network_calls (CallGetCredentials p sc f k oa ci # xs) =
     CallGetCredentials p sc f k oa ci # network_calls xs"
  by (simp_all add: network_calls_def)

lemma stdout_simps [simp]:
  "stdout [] = []"
  "stdout (xs @ ys) = stdout xs @ stdout ys"
  "stdout (OpenFile p # xs) = stdout xs"
  "stdout (Print s # xs) = s # stdout xs"
  "stdout (CallMakeRequest u # xs) = stdout xs"
  "stdout (CallRefresh c # xs) = stdout xs"
  "stdout (CallGetCredentials pk sc f k oa ci # xs) = stdout xs"
  by (simp_all add: stdout_def)

subsection \<open>Introspection\<close>

lemma snd_GetTokenInfo:
  "snd (GetTokenInfo env token) = [CallMakeRequest (OAUTH2_TOKENINFO_TEMPLATE token)]"
  by (simp add: GetTokenInfo_def Let_def snd_andthen split: sum.splits)

lemma fst_TestToken:
  "fst (TestToken env token) =
     (case fst (GetTokenInfo env token) of Inl e \<Rightarrow> Inl e | Inr info \<Rightarrow> Inr (py_bool info))"
  by (simp add: TestToken_def fst_andthen split: sum.splits)

lemma snd_TestToken:
  "snd (TestToken env token) = [CallMakeRequest (OAUTH2_TOKENINFO_TEMPLATE token)]"
  by (simp add: TestToken_def snd_andthen snd_GetTokenInfo split: sum.splits)

text \<open>
  Claim C2. For every access token, when the transport answers the introspection request
  with status 200, \<open>GetTokenInfo\<close> returns the parsed response body (what
  \<^verbatim>\<open>json.loads(_AsText(response.content))\<close> gives); when it answers with status 400,
  \<open>GetTokenInfo\<close> returns the empty mapping; for every other status it fails with the
  \<open>HttpError\<close> of the response, a transport error.
\<close>

theorem GetTokenInfo_by_status:
  assumes "MakeRequest env (OAUTH2_TOKENINFO_TEMPLATE token) = Inr response"
  shows "(status_code response = 200 \<longrightarrow>
            fst (GetTokenInfo env token) = loads_AsText env (content response)) \<and>
         (status_code response = 400 \<longrightarrow> fst (GetTokenInfo env token) = Inr (JObj [])) \<and>
         (status_code response \<noteq> 200 \<and> status_code response \<noteq> 400 \<longrightarrow>
            fst (GetTokenInfo env token) = Inl (HttpError response) \<and>
            TransportError (HttpError response))"
  using assms by (simp add: GetTokenInfo_def Let_def fst_andthen OK_def BAD_REQUEST_def)

lemma example_MakeRequest_valid:
  "MakeRequest example_env (OAUTH2_TOKENINFO_TEMPLATE ''ya29.valid'') =
     Inr \<lparr>status_code = 200, content = Text ''{info}''\<rparr>"
  by (simp add: example_env_def example_MakeRequest_def)

lemma example_MakeRequest_stale:
  "MakeRequest example_env (OAUTH2_TOKENINFO_TEMPLATE ''ya29.stale'') =
     Inr \<lparr>status_code = 400, content = Text ''''\<rparr>"
  by (simp add: example_env_def example_MakeRequest_def OAUTH2_TOKENINFO_TEMPLATE_def)

lemma example_MakeRequest_other:
  "MakeRequest example_env (OAUTH2_TOKENINFO_TEMPLATE ''x'') =
     Inr \<lparr>status_code = 503, content = Text ''''\<rparr>"
  by (simp add: example_env_def example_MakeRequest_def OAUTH2_TOKENINFO_TEMPLATE_def)

lemma example_loads_info:
  "loads_AsText example_env (Text ''{info}'') = Inr (JObj [(''expires_in'', JNum 3520)])"
  by (simp add: loads_AsText_def json_loads_def example_env_def example_loads_def)

theorem GetTokenInfo_by_status_witness:
  "fst (GetTokenInfo example_env ''ya29.valid'') = Inr (JObj [(''expires_in'', JNum 3520)]) \<and>
   fst (GetTokenInfo example_env ''ya29.stale'') = Inr (JObj []) \<and>
   fst (GetTokenInfo example_env ''x'') =
     Inl (HttpError \<lparr>status_code = 503, content = Text ''''\<rparr>)"
  using GetTokenInfo_by_status [OF example_MakeRequest_valid]
    GetTokenInfo_by_status [OF example_MakeRequest_stale]
    GetTokenInfo_by_status [OF example_MakeRequest_other]
  by (simp add: example_loads_info)

lemma GetTokenInfo_valid:
  "fst (GetTokenInfo example_env ''ya29.valid'') = Inr (JObj [(''expires_in'', JNum 3520)])"
  by (simp add: GetTokenInfo_def Let_def fst_andthen example_MakeRequest_valid
      OK_def BAD_REQUEST_def example_loads_info)

lemma GetTokenInfo_stale:
  "fst (GetTokenInfo example_env ''ya29.stale'') = Inr (JObj [])"
  by (simp add: GetTokenInfo_def Let_def fst_andthen example_MakeRequest_stale
      OK_def BAD_REQUEST_def)

subsection \<open>Formatting\<close>

text \<open>
  Claim C4. For every credential, \<open>Format\<close> with \<open>header\<close> returns exactly
  \<open>Authorization: Bearer\<close>, a space and the access token; with \<open>bare\<close> it returns
  exactly the access token; and for every kind outside \<open>bare\<close>, \<open>header\<close>,
  \<open>json\<close>, \<open>json_compact\<close>, \<open>pretty\<close> it fails with a configuration error.
\<close>

theorem Format_bare_header_unknown:
  "Format env ''header'' creds = Inr (''Authorization: Bearer '' @ access_token creds) \<and>
   Format env ''bare'' creds = Inr (access_token creds) \<and>
   (fmt \<notin> FORMATS \<longrightarrow>
      Format env fmt creds = Inl (ValueError (''Unknown format: '' @ fmt)) \<and>
      ConfigurationError (ValueError (''Unknown format: '' @ fmt)))"
  by (simp add: Format_def FORMATS_def)

theorem Format_bare_header_unknown_witness:
  "''yaml'' \<notin> FORMATS \<and>
   Format example_env ''yaml'' example_credentials = Inl (ValueError ''Unknown format: yaml'') \<and>
   Format example_env ''header'' example_credentials = Inr ''Authorization: Bearer ya29.stale'' \<and>
   Format example_env ''bare'' example_credentials = Inr ''ya29.stale''"
proof -
  have h: "''yaml'' \<notin> FORMATS" by (simp add: FORMATS_def)
  from Format_bare_header_unknown [of example_env example_credentials "''yaml''"] h
  show ?thesis by (simp add: example_credentials_def)
qed

subsection \<open>The test and info commands\<close>

lemma fst_Test:
  "fst (Test env a) =
     (case fst (GetTokenInfo env (args_access_token a)) of
        Inl e \<Rightarrow> Inl e
      | Inr info \<Rightarrow> Inr (Some (if py_bool info then 0 else 1)))"
  by (simp add: Test_def fst_andthen fst_TestToken split: sum.splits)

lemma snd_Test:
  "snd (Test env a) = [CallMakeRequest (OAUTH2_TOKENINFO_TEMPLATE (args_access_token a))]"
  by (simp add: Test_def snd_andthen snd_TestToken split: sum.splits)

lemma fst_main:
  "fst (main env a) =
     (case fst (call_func (args_func a) env a) of Inl e \<Rightarrow> Some 1 | Inr c \<Rightarrow> c)"
  by (cases "call_func (args_func a) env a") (simp add: main_def split: sum.splits)

lemma snd_main:
  "snd (main env a) =
     (case fst (call_func (args_func a) env a) of
        Inl e \<Rightarrow> snd (call_func (args_func a) env a) @
          [Print (''Error encountered in '' @ args_command a @ '' operation: '' @ str_of env e)]
      | Inr c \<Rightarrow> snd (call_func (args_func a) env a))"
  by (cases "call_func (args_func a) env a") (simp add: main_def split: sum.splits)

text \<open>
  Claim C5. For every token, the test command exits with status 0 if and only if the
  introspection of the token returns a non-empty result (for a mapping: one with an item),
  and with status 1 otherwise; when the introspection returns, empty or not, nothing is
  written to standard output; and \<open>TestToken\<close> is true exactly when the introspection
  result is non-empty.
\<close>

theorem Test_exit_status:
  assumes "args_func a = TestFn"
  shows "(exit_status (fst (main env a)) = 0 \<longleftrightarrow>
            (\<exists>info. fst (GetTokenInfo env (args_access_token a)) = Inr info \<and> py_bool info)) \<and>
         (exit_status (fst (main env a)) \<noteq> 0 \<longrightarrow> exit_status (fst (main env a)) = 1) \<and>
         (\<forall>info. fst (GetTokenInfo env (args_access_token a)) = Inr info \<longrightarrow>
            fst (TestToken env (args_access_token a)) = Inr (py_bool info) \<and>
            fst (Test env a) = Inr (Some (if py_bool info then 0 else 1)) \<and>
            stdout (snd (Test env a)) = [] \<and>
            stdout (snd (main env a)) = []) \<and>
         (\<forall>items. fst (GetTokenInfo env (args_access_token a)) = Inr (JObj items) \<longrightarrow>
            (exit_status (fst (main env a)) = 0 \<longleftrightarrow> items \<noteq> []))"
  using assms
  by (auto simp: fst_main snd_main fst_Test snd_Test fst_TestToken split: sum.splits)

theorem Test_exit_status_witness:
  "exit_status (fst (main example_env (example_args\<lparr>args_func := TestFn\<rparr>))) = 0 \<and>
   stdout (snd (main example_env (example_args\<lparr>args_func := TestFn\<rparr>))) = [] \<and>
   exit_status (fst (main example_env
      (example_args\<lparr>args_func := TestFn, args_access_token := ''ya29.stale''\<rparr>))) = 1 \<and>
   stdout (snd (main example_env
      (example_args\<lparr>args_func := TestFn, args_access_token := ''ya29.stale''\<rparr>))) = []"
proof -
  let ?a = "example_args\<lparr>args_func := TestFn\<rparr>"
  let ?b = "example_args\<lparr>args_func := TestFn, args_access_token := ''ya29.stale''\<rparr>"
  have a: "fst (GetTokenInfo example_env (args_access_token ?a)) =
             Inr (JObj [(''expires_in'', JNum 3520)])"
    using GetTokenInfo_valid by (simp add: example_args_def)
  have b: "fst (GetTokenInfo example_env (args_access_token ?b)) = Inr (JObj [])"
    using GetTokenInfo_stale by (simp add: example_args_def)
  have fa: "args_func ?a = TestFn" and fb: "args_func ?b = TestFn" by simp_all
  from Test_exit_status [OF fa, of example_env] Test_exit_status [OF fb, of example_env] a b
  show ?thesis by simp
qed






subsection \<open>Acquisition\<close>

lemma fst_ProcessJsonArgs:
  "fst (ProcessJsonArgs env a) =
     (if args_json a = [] then Inr ('''', '''')
      else case files env (args_json a) of
        None \<Rightarrow> Inl (IOError (args_json a))
      | Some text \<Rightarrow>
          (case loads env text of
             Inl m \<Rightarrow> Inl (ValueError (''Invalid JSON file: '' @ args_json a))
           | Inr contents \<Rightarrow>
               (case dict_get contents ''type'' (JStr '''') of
                  Inl e \<Rightarrow> Inl e
                | Inr t \<Rightarrow>
                    if t = JStr ''service_account'' then Inr ('''', args_json a)
                    else Inr (args_json a, ''''))))"
  by (simp add: ProcessJsonArgs_def fst_andthen open_file_def
      split: sum.splits option.splits)

lemma snd_ProcessJsonArgs:
  "snd (ProcessJsonArgs env a) = (if args_json a = [] then [] else [OpenFile (args_json a)])"
  by (simp add: ProcessJsonArgs_def snd_andthen open_file_def
      split: sum.splits option.splits)

lemma snd_installed_client_info: "snd (installed_client_info j) = []"
  by (simp add: installed_client_info_def snd_andthen split: sum.splits)

lemma snd_GetDefaultClientInfo: "snd (GetDefaultClientInfo env) = []"
  by (simp add: GetDefaultClientInfo_def snd_andthen snd_installed_client_info
      split: sum.splits)

lemma network_GetClientInfoFromFlags:
  "network_calls (snd (GetClientInfoFromFlags env client_secrets)) = [] \<and>
   stdout (snd (GetClientInfoFromFlags env client_secrets)) = []"
  by (simp add: GetClientInfoFromFlags_def Let_def snd_andthen open_file_def
      snd_installed_client_info snd_GetDefaultClientInfo split: sum.splits)

lemma network_resolve_client_info:
  "network_calls (snd (resolve_client_info env ci client_secrets)) = [] \<and>
   stdout (snd (resolve_client_info env ci client_secrets)) = []"
  by (simp add: resolve_client_info_def network_GetClientInfoFromFlags split: option.splits)

lemma fst_FetchCredentials:
  "fst (FetchCredentials env a client_info credentials_filename) =
     (case fst (ProcessJsonArgs env a) of
        Inl e \<Rightarrow> Inl e
      | Inr (client_secrets, keyfile) \<Rightarrow>
          (case fst (resolve_client_info env client_info client_secrets) of
             Inl e \<Rightarrow> Inl e
           | Inr ci \<Rightarrow>
               if args_scope a = [] then Inl (ValueError ''No scopes provided'')
               else
                 (case GetCredentials env ''oauth2l'' (ExpandScopes (args_scope a))
                         (resolve_filename credentials_filename a) keyfile
                         [''--noauth_local_webserver''] ci of
                    Inl e \<Rightarrow> Inl e
                  | Inr creds \<Rightarrow>
                      (case fst (GetTokenInfo env (access_token creds)) of
                         Inl e \<Rightarrow> Inl e
                       | Inr info \<Rightarrow>
                           if py_bool info then Inr creds else refresh env creds))))"
  by (simp add: FetchCredentials_def fst_andthen Let_def ExpandScopes_def fst_TestToken
      split: sum.splits prod.splits)

lemma snd_FetchCredentials:
  "snd (FetchCredentials env a client_info credentials_filename) =
     snd (ProcessJsonArgs env a) @
     (case fst (ProcessJsonArgs env a) of
        Inl e \<Rightarrow> []
      | Inr (client_secrets, keyfile) \<Rightarrow>
          snd (resolve_client_info env client_info client_secrets) @
          (case fst (resolve_client_info env client_info client_secrets) of
             Inl e \<Rightarrow> []
           | Inr ci \<Rightarrow>
               if args_scope a = [] then []
               else
                 CallGetCredentials ''oauth2l'' (ExpandScopes (args_scope a))
                   (resolve_filename credentials_filename a) keyfile
                   [''--noauth_local_webserver''] ci #
                 (case GetCredentials env ''oauth2l'' (ExpandScopes (args_scope a))
                         (resolve_filename credentials_filename a) keyfile
                         [''--noauth_local_webserver''] ci of
                    Inl e \<Rightarrow> []
                  | Inr creds \<Rightarrow>
                      CallMakeRequest (OAUTH2_TOKENINFO_TEMPLATE (access_token creds)) #
                      (case fst (GetTokenInfo env (access_token creds)) of
                         Inl e \<Rightarrow> []
                       | Inr info \<Rightarrow> if py_bool info then [] else [CallRefresh creds]))))"
  by (simp add: FetchCredentials_def snd_andthen Let_def ExpandScopes_def fst_TestToken
      snd_TestToken split: sum.splits prod.splits)

lemma network_ProcessJsonArgs:
  "network_calls (snd (ProcessJsonArgs env a)) = [] \<and> stdout (snd (ProcessJsonArgs env a)) = []"
  by (simp add: snd_ProcessJsonArgs)

text \<open>
  Claim C1. Whenever \<open>FetchCredentials\<close> returns a credential, the run called the
  credential store once, then introspected the access token of the credential it got,
  once, and then called the refresh if and only if the introspection returned an empty
  result: these are all the calls of the run, in this order, so nothing is validated
  after a refresh. The credential returned is the refreshed one after a refresh, and the
  credential of the store, unchanged, otherwise.
\<close>

theorem FetchCredentials_validates_then_refreshes:
  assumes "FetchCredentials env a client_info credentials_filename = (Inr returned, tr)"
  shows "\<exists>scopes fname keyfile ci creds info.
           GetCredentials env ''oauth2l'' scopes fname keyfile [''--noauth_local_webserver''] ci
             = Inr creds \<and>
           fst (GetTokenInfo env (access_token creds)) = Inr info \<and>
           network_calls tr =
             [CallGetCredentials ''oauth2l'' scopes fname keyfile
                [''--noauth_local_webserver''] ci,
              CallMakeRequest (OAUTH2_TOKENINFO_TEMPLATE (access_token creds))] @
             (if py_bool info then [] else [CallRefresh creds]) \<and>
           (if py_bool info then returned = creds else refresh env creds = Inr returned)"
proof -
  let ?run = "FetchCredentials env a client_info credentials_filename"
  from assms have r: "fst ?run = Inr returned" and t: "snd ?run = tr" by simp_all
  from r obtain client_secrets keyfile where
    pj: "fst (ProcessJsonArgs env a) = Inr (client_secrets, keyfile)"
    by (auto simp: fst_FetchCredentials split: sum.splits prod.splits)
  from r pj obtain ci where
    rc: "fst (resolve_client_info env client_info client_secrets) = Inr ci"
    by (auto simp: fst_FetchCredentials split: sum.splits)
  from r pj rc have sc: "args_scope a \<noteq> []"
    by (auto simp: fst_FetchCredentials split: if_splits)
  let ?scopes = "ExpandScopes (args_scope a)"
  let ?fname = "resolve_filename credentials_filename a"
  from r pj rc sc obtain creds where
    gc: "GetCredentials env ''oauth2l'' ?scopes ?fname keyfile [''--noauth_local_webserver''] ci
           = Inr creds"
    by (auto simp: fst_FetchCredentials split: sum.splits)
  from r pj rc sc gc obtain info where
    gi: "fst (GetTokenInfo env (access_token creds)) = Inr info"
    by (auto simp: fst_FetchCredentials split: sum.splits)
  from r pj rc sc gc gi have res: "if py_bool info then returned = creds
      else refresh env creds = Inr returned"
    by (auto simp: fst_FetchCredentials split: if_splits)
  from t pj rc sc gc gi have "network_calls tr =
      [CallGetCredentials ''oauth2l'' ?scopes ?fname keyfile [''--noauth_local_webserver''] ci,
       CallMakeRequest (OAUTH2_TOKENINFO_TEMPLATE (access_token creds))] @
      (if py_bool info then [] else [CallRefresh creds])"
    using network_ProcessJsonArgs [of env a]
      network_resolve_client_info [of env client_info client_secrets]
    by (auto simp: snd_FetchCredentials)
  with gc gi res show ?thesis by blast
qed



lemma example_resolve:
  "resolve_client_info example_env None '''' = (Inr example_client_info, [])"
  by (simp add: resolve_client_info_def GetClientInfoFromFlags_def GetDefaultClientInfo_def
      installed_client_info_def andthen_def lift_def ret_def decode_utf8_def json_loads_def
      example_env_def example_loads_def example_client_info_def)

lemma example_ProcessJsonArgs_none:
  "args_json a = [] \<Longrightarrow> ProcessJsonArgs env a = (Inr ('''', ''''), [])"
  by (simp add: ProcessJsonArgs_def ret_def)

lemma example_FetchCredentials:
  "FetchCredentials example_env example_args None None =
     (Inr (example_credentials\<lparr>access_token := ''ya29.valid''\<rparr>),
      [CallGetCredentials ''oauth2l'' [''https://www.googleapis.com/auth/bigquery''] '''' ''''
         [''--noauth_local_webserver''] example_client_info,
       CallMakeRequest (OAUTH2_TOKENINFO_TEMPLATE ''ya29.stale''),
       CallRefresh example_credentials])"
proof -
  have j: "args_json example_args = []" and s: "args_scope example_args = [''bigquery'']"
    and f: "args_credentials_filename example_args = []"
    by (simp_all add: example_args_def)
  have e: "ExpandScopes [''bigquery''] = [''https://www.googleapis.com/auth/bigquery'']"
    by (simp add: ExpandScopes_def startswith_def scope_prefix_def)
  have g: "\<And>p sc fn k oa ci. GetCredentials example_env p sc fn k oa ci = Inr example_credentials"
    by (simp add: example_env_def)
  have t: "access_token example_credentials = ''ya29.stale''"
    by (simp add: example_credentials_def)
  have r: "refresh example_env example_credentials =
      Inr (example_credentials\<lparr>access_token := ''ya29.valid''\<rparr>)"
    by (simp add: example_env_def)
  have 1: "fst (FetchCredentials example_env example_args None None) =
      Inr (example_credentials\<lparr>access_token := ''ya29.valid''\<rparr>)"
    by (simp add: fst_FetchCredentials example_ProcessJsonArgs_none [OF j] example_resolve
        s e g t r GetTokenInfo_stale)
  have 2: "snd (FetchCredentials example_env example_args None None) =
      [CallGetCredentials ''oauth2l'' [''https://www.googleapis.com/auth/bigquery''] '''' ''''
         [''--noauth_local_webserver''] example_client_info,
       CallMakeRequest (OAUTH2_TOKENINFO_TEMPLATE ''ya29.stale''),
       CallRefresh example_credentials]"
    by (simp add: snd_FetchCredentials example_ProcessJsonArgs_none [OF j] example_resolve
        s e g t r GetTokenInfo_stale resolve_filename_def f)
  from 1 2 show ?thesis by (simp add: prod_eq_iff)
qed

theorem FetchCredentials_validates_then_refreshes_witness:
  "fst (FetchCredentials example_env example_args None None) =
     Inr (example_credentials\<lparr>access_token := ''ya29.valid''\<rparr>) \<and>
   (\<exists>scopes fname keyfile ci creds info.
     GetCredentials example_env ''oauth2l'' scopes fname keyfile
       [''--noauth_local_webserver''] ci = Inr creds \<and>
     fst (GetTokenInfo example_env (access_token creds)) = Inr info \<and>
     [CallGetCredentials ''oauth2l'' [''https://www.googleapis.com/auth/bigquery''] '''' ''''
        [''--noauth_local_webserver''] example_client_info,
      CallMakeRequest (OAUTH2_TOKENINFO_TEMPLATE ''ya29.stale''),
      CallRefresh example_credentials] =
       [CallGetCredentials ''oauth2l'' scopes fname keyfile [''--noauth_local_webserver''] ci,
        CallMakeRequest (OAUTH2_TOKENINFO_TEMPLATE (access_token creds))] @
       (if py_bool info then [] else [CallRefresh creds]) \<and>
     (if py_bool info then example_credentials\<lparr>access_token := ''ya29.valid''\<rparr> = creds
      else refresh example_env creds =
        Inr (example_credentials\<lparr>access_token := ''ya29.valid''\<rparr>)))"
  using FetchCredentials_validates_then_refreshes [OF example_FetchCredentials]
    example_FetchCredentials
  by simp


subsection \<open>Fetch and header\<close>

lemma Fetch_fails:
  assumes "fst (FetchCredentials env a None None) = Inl e"
  shows "fst (Fetch env a) = Inl e \<and> snd (Fetch env a) = snd (FetchCredentials env a None None)"
  using assms by (simp add: Fetch_def fst_andthen snd_andthen)

lemma Header_fails:
  assumes "fst (FetchCredentials env a None None) = Inl e"
  shows "fst (Header env a) = Inl e \<and> snd (Header env a) = snd (FetchCredentials env a None None)"
  using assms by (simp add: Header_def fst_andthen snd_andthen)

lemma FetchCredentials_no_scopes:
  assumes "args_scope a = []"
  shows "\<exists>e. fst (FetchCredentials env a ci cf) = Inl e \<and>
     e = (case fst (ProcessJsonArgs env a) of
            Inl e \<Rightarrow> e
          | Inr (client_secrets, keyfile) \<Rightarrow>
              (case fst (resolve_client_info env ci client_secrets) of
                 Inl e \<Rightarrow> e
               | Inr info \<Rightarrow> ValueError ''No scopes provided''))"
  using assms by (simp add: fst_FetchCredentials split: sum.splits prod.splits)

lemma FetchCredentials_no_scopes_quiet:
  assumes "args_scope a = []"
  shows "network_calls (snd (FetchCredentials env a ci cf)) = [] \<and>
         stdout (snd (FetchCredentials env a ci cf)) = []"
  using assms network_ProcessJsonArgs [of env a]
  by (simp add: snd_FetchCredentials network_resolve_client_info split: sum.splits prod.splits)

text \<open>
  What holds of every run of fetch or header with no scope: it fails, the credential
  store, the introspection endpoint and the refresh are not called, and the handler prints
  nothing. When the processing of the JSON file and the resolution of the client
  information succeed, the failure is the configuration error \<open>No scopes provided\<close>;
  a failure of one of these two steps comes first.
\<close>

lemma no_scopes_no_network_call:
  assumes "args_scope a = []"
  shows "(\<exists>e. fst (FetchCredentials env a None None) = Inl e \<and>
              fst (Fetch env a) = Inl e \<and> fst (Header env a) = Inl e) \<and>
         network_calls (snd (Fetch env a)) = [] \<and>
         network_calls (snd (Header env a)) = [] \<and>
         stdout (snd (Fetch env a)) = [] \<and>
         stdout (snd (Header env a)) = [] \<and>
         (\<forall>client_secrets keyfile ci.
            fst (ProcessJsonArgs env a) = Inr (client_secrets, keyfile) \<and>
            fst (resolve_client_info env None client_secrets) = Inr ci \<longrightarrow>
              fst (Fetch env a) = Inl (ValueError ''No scopes provided'') \<and>
              fst (Header env a) = Inl (ValueError ''No scopes provided'') \<and>
              ConfigurationError (ValueError ''No scopes provided'')) \<and>
         (\<forall>e. fst (ProcessJsonArgs env a) = Inl e \<longrightarrow>
            fst (Fetch env a) = Inl e \<and> fst (Header env a) = Inl e) \<and>
         (\<forall>client_secrets keyfile e.
            fst (ProcessJsonArgs env a) = Inr (client_secrets, keyfile) \<and>
            fst (resolve_client_info env None client_secrets) = Inl e \<longrightarrow>
              fst (Fetch env a) = Inl e \<and> fst (Header env a) = Inl e)"
proof -
  from FetchCredentials_no_scopes [OF assms, of env None None] obtain e where
    e: "fst (FetchCredentials env a None None) = Inl e"
    and v: "e = (case fst (ProcessJsonArgs env a) of
            Inl e \<Rightarrow> e
          | Inr (client_secrets, keyfile) \<Rightarrow>
              (case fst (resolve_client_info env None client_secrets) of
                 Inl e \<Rightarrow> e
               | Inr info \<Rightarrow> ValueError ''No scopes provided''))"
    by blast
  note f = Fetch_fails [OF e] and h = Header_fails [OF e]
  note q = FetchCredentials_no_scopes_quiet [OF assms, of env None None]
  have 1: "\<exists>e. fst (FetchCredentials env a None None) = Inl e \<and>
              fst (Fetch env a) = Inl e \<and> fst (Header env a) = Inl e"
    using e f h by blast
  have 2: "network_calls (snd (Fetch env a)) = []" "network_calls (snd (Header env a)) = []"
    "stdout (snd (Fetch env a)) = []" "stdout (snd (Header env a)) = []"
    using f h q by simp_all
  have 3: "\<forall>client_secrets keyfile ci.
            fst (ProcessJsonArgs env a) = Inr (client_secrets, keyfile) \<and>
            fst (resolve_client_info env None client_secrets) = Inr ci \<longrightarrow>
              fst (Fetch env a) = Inl (ValueError ''No scopes provided'') \<and>
              fst (Header env a) = Inl (ValueError ''No scopes provided'') \<and>
              ConfigurationError (ValueError ''No scopes provided'')"
    using f h v by simp
  have 4: "\<forall>e. fst (ProcessJsonArgs env a) = Inl e \<longrightarrow>
            fst (Fetch env a) = Inl e \<and> fst (Header env a) = Inl e"
    using f h v by simp
  have 5: "\<forall>client_secrets keyfile e.
            fst (ProcessJsonArgs env a) = Inr (client_secrets, keyfile) \<and>
            fst (resolve_client_info env None client_secrets) = Inl e \<longrightarrow>
              fst (Fetch env a) = Inl e \<and> fst (Header env a) = Inl e"
    using f h v by simp
  from 1 2 3 4 5 show ?thesis by blast
qed

lemma no_scopes_no_network_call_example:
  "args_scope (example_args\<lparr>args_scope := []\<rparr>) = [] \<and>
   fst (Fetch example_env (example_args\<lparr>args_scope := []\<rparr>)) =
     Inl (ValueError ''No scopes provided'') \<and>
   fst (Header example_env (example_args\<lparr>args_scope := []\<rparr>)) =
     Inl (ValueError ''No scopes provided'') \<and>
   network_calls (snd (Fetch example_env (example_args\<lparr>args_scope := []\<rparr>))) = [] \<and>
   network_calls (snd (Header example_env (example_args\<lparr>args_scope := []\<rparr>))) = []"
proof -
  let ?a = "example_args\<lparr>args_scope := []\<rparr>"
  have s: "args_scope ?a = []" by simp
  have j: "args_json ?a = []" by (simp add: example_args_def)
  have p: "fst (ProcessJsonArgs example_env ?a) = Inr ('''', '''')"
    using example_ProcessJsonArgs_none [OF j, of example_env] by simp
  have r: "fst (resolve_client_info example_env None '''') = Inr example_client_info"
    by (simp add: example_resolve)
  from no_scopes_no_network_call [OF s, of example_env] p r s
  show ?thesis by simp
qed

text \<open>
  Claim C3. With no scope, the acquisition is to fail with a configuration error before
  any network call. The run below has no scope and a key file that holds a JSON list: no
  network call is made, but the failure is the \<open>AttributeError\<close> of the unguarded
  \<^verbatim>\<open>contents.get\<close> in \<open>ProcessJsonArgs\<close>, which is not a configuration error,
  although \<open>GetClientInfoFromFlags\<close> rejects the same file with a \<open>ValueError\<close>.
  With no scope and a key file that is missing, the failure is the \<open>IOError\<close> of the
  unguarded \<^verbatim>\<open>open\<close>, as for claim C7.
\<close>

theorem no_scopes_not_ConfigurationError:
  "args_scope (example_args\<lparr>args_json := ''list.json'', args_scope := []\<rparr>) = [] \<and>
   fst (Fetch example_env (example_args\<lparr>args_json := ''list.json'', args_scope := []\<rparr>))
     = Inl AttributeError \<and>
   fst (Header example_env (example_args\<lparr>args_json := ''list.json'', args_scope := []\<rparr>))
     = Inl AttributeError \<and>
   \<not> ConfigurationError AttributeError \<and>
   network_calls
     (snd (Fetch example_env (example_args\<lparr>args_json := ''list.json'', args_scope := []\<rparr>)))
     = [] \<and>
   fst (GetClientInfoFromFlags example_env ''list.json'')
     = Inl (ValueError ''Provided client ID must be for an installed app'') \<and>
   fst (Fetch example_env (example_args\<lparr>args_json := ''missing.json'', args_scope := []\<rparr>))
     = Inl (IOError ''missing.json'') \<and>
   \<not> ConfigurationError (IOError ''missing.json'')"
proof -
  let ?a = "example_args\<lparr>args_json := ''list.json'', args_scope := []\<rparr>"
  let ?m = "example_args\<lparr>args_json := ''missing.json'', args_scope := []\<rparr>"
  have "fst (ProcessJsonArgs example_env ?a) = Inl AttributeError"
    by (simp add: fst_ProcessJsonArgs example_env_def example_loads_def)
  then have a: "fst (FetchCredentials example_env ?a None None) = Inl AttributeError"
    by (simp add: fst_FetchCredentials)
  have "args_scope ?a = []" by simp
  from FetchCredentials_no_scopes_quiet [OF this, of example_env None None] Fetch_fails [OF a]
  have n: "network_calls (snd (Fetch example_env ?a)) = []" by simp
  have g: "fst (GetClientInfoFromFlags example_env ''list.json'')
     = Inl (ValueError ''Provided client ID must be for an installed app'')"
    by (simp add: GetClientInfoFromFlags_def Let_def fst_andthen open_file_def json_loads_def
        example_env_def example_loads_def)
  have "fst (ProcessJsonArgs example_env ?m) = Inl (IOError ''missing.json'')"
    by (simp add: fst_ProcessJsonArgs example_env_def)
  then have m: "fst (FetchCredentials example_env ?m None None) = Inl (IOError ''missing.json'')"
    by (simp add: fst_FetchCredentials)
  from Fetch_fails [OF a] Header_fails [OF a] Fetch_fails [OF m] n g show ?thesis by simp
qed

subsection \<open>The key file is read before the scopes are checked\<close>

text \<open>
  Claim C10. \<open>FetchCredentials\<close> opens and processes the JSON file, then resolves the
  client information, and only then checks the scopes. With a JSON file that is missing
  or that does not parse, the error raised is that of the JSON file, whatever the scopes
  are; an error of either earlier step is the error of the run; and \<open>No scopes
  provided\<close> is raised when both steps succeed and there is no scope.
\<close>

theorem json_file_before_scope_check:
  "(args_json a \<noteq> [] \<longrightarrow>
      take 1 (snd (FetchCredentials env a ci cf)) = [OpenFile (args_json a)]) \<and>
   (args_json a \<noteq> [] \<and> files env (args_json a) = None \<longrightarrow>
      fst (FetchCredentials env a ci cf) = Inl (IOError (args_json a))) \<and>
   (\<forall>text m. args_json a \<noteq> [] \<and> files env (args_json a) = Some text \<and>
        loads env text = Inl m \<longrightarrow>
      fst (FetchCredentials env a ci cf) =
        Inl (ValueError (''Invalid JSON file: '' @ args_json a))) \<and>
   (\<forall>e. fst (ProcessJsonArgs env a) = Inl e \<longrightarrow>
      fst (FetchCredentials env a ci cf) = Inl e \<and>
      snd (FetchCredentials env a ci cf) = snd (ProcessJsonArgs env a)) \<and>
   (\<forall>client_secrets keyfile e.
      fst (ProcessJsonArgs env a) = Inr (client_secrets, keyfile) \<and>
      fst (resolve_client_info env ci client_secrets) = Inl e \<longrightarrow>
        fst (FetchCredentials env a ci cf) = Inl e) \<and>
   (\<forall>client_secrets keyfile info.
      fst (ProcessJsonArgs env a) = Inr (client_secrets, keyfile) \<and>
      fst (resolve_client_info env ci client_secrets) = Inr info \<and>
      args_scope a = [] \<longrightarrow>
        fst (FetchCredentials env a ci cf) = Inl (ValueError ''No scopes provided''))"
proof -
  have 1: "args_json a \<noteq> [] \<longrightarrow>
      take 1 (snd (FetchCredentials env a ci cf)) = [OpenFile (args_json a)]"
    by (simp add: snd_FetchCredentials snd_ProcessJsonArgs)
  have 2: "args_json a \<noteq> [] \<and> files env (args_json a) = None \<longrightarrow>
      fst (FetchCredentials env a ci cf) = Inl (IOError (args_json a))"
    by (simp add: fst_FetchCredentials fst_ProcessJsonArgs)
  have 3: "\<forall>text m. args_json a \<noteq> [] \<and> files env (args_json a) = Some text \<and>
        loads env text = Inl m \<longrightarrow>
      fst (FetchCredentials env a ci cf) =
        Inl (ValueError (''Invalid JSON file: '' @ args_json a))"
    by (simp add: fst_FetchCredentials fst_ProcessJsonArgs)
  have 4: "\<forall>e. fst (ProcessJsonArgs env a) = Inl e \<longrightarrow>
      fst (FetchCredentials env a ci cf) = Inl e \<and>
      snd (FetchCredentials env a ci cf) = snd (ProcessJsonArgs env a)"
    by (simp add: fst_FetchCredentials snd_FetchCredentials)
  have 5: "\<forall>client_secrets keyfile e.
      fst (ProcessJsonArgs env a) = Inr (client_secrets, keyfile) \<and>
      fst (resolve_client_info env ci client_secrets) = Inl e \<longrightarrow>
        fst (FetchCredentials env a ci cf) = Inl e"
    by (simp add: fst_FetchCredentials)
  have 6: "\<forall>client_secrets keyfile info.
      fst (ProcessJsonArgs env a) = Inr (client_secrets, keyfile) \<and>
      fst (resolve_client_info env ci client_secrets) = Inr info \<and>
      args_scope a = [] \<longrightarrow>
        fst (FetchCredentials env a ci cf) = Inl (ValueError ''No scopes provided'')"
    by (simp add: fst_FetchCredentials)
  from 1 2 3 4 5 6 show ?thesis by blast
qed

theorem json_file_before_scope_check_witness:
  "fst (FetchCredentials example_env
      (example_args\<lparr>args_json := ''missing.json'', args_scope := []\<rparr>) None None)
     = Inl (IOError ''missing.json'') \<and>
   fst (FetchCredentials example_env
      (example_args\<lparr>args_json := ''broken.json'', args_scope := []\<rparr>) None None)
     = Inl (ValueError ''Invalid JSON file: broken.json'') \<and>
   take 1 (snd (FetchCredentials example_env
      (example_args\<lparr>args_json := ''broken.json'', args_scope := []\<rparr>) None None))
     = [OpenFile ''broken.json''] \<and>
   fst (FetchCredentials example_env (example_args\<lparr>args_scope := []\<rparr>) None None)
     = Inl (ValueError ''No scopes provided'')"
proof -
  let ?m = "example_args\<lparr>args_json := ''missing.json'', args_scope := []\<rparr>"
  let ?b = "example_args\<lparr>args_json := ''broken.json'', args_scope := []\<rparr>"
  let ?n = "example_args\<lparr>args_scope := []\<rparr>"
  have m: "args_json ?m \<noteq> [] \<and> files example_env (args_json ?m) = None"
    by (simp add: example_env_def)
  have b: "args_json ?b \<noteq> [] \<and> files example_env (args_json ?b) = Some ''{'' \<and>
      loads example_env ''{'' = Inl ''No JSON object could be decoded''"
    by (simp add: example_env_def example_loads_def)
  have j: "args_json ?n = []" by (simp add: example_args_def)
  have n: "fst (ProcessJsonArgs example_env ?n) = Inr ('''', '''') \<and>
      fst (resolve_client_info example_env None '''') = Inr example_client_info \<and>
      args_scope ?n = []"
    using example_ProcessJsonArgs_none [OF j, of example_env] by (simp add: example_resolve)
  from json_file_before_scope_check [of ?m example_env None None] m
  have 1: "fst (FetchCredentials example_env ?m None None) = Inl (IOError ''missing.json'')"
    by simp
  from json_file_before_scope_check [of ?b example_env None None] b
  have 2: "fst (FetchCredentials example_env ?b None None) =
      Inl (ValueError ''Invalid JSON file: broken.json'')"
    and 3: "take 1 (snd (FetchCredentials example_env ?b None None)) = [OpenFile ''broken.json'']"
    by simp_all
  from json_file_before_scope_check [of ?n example_env None None] n
  have 4: "fst (FetchCredentials example_env ?n None None) = Inl (ValueError ''No scopes provided'')"
    by blast
  from 1 2 3 4 show ?thesis by simp
qed

subsection \<open>A key file that is missing\<close>

text \<open>
  Claim C7. With a JSON file that does not parse, the acquisition fails with the
  configuration error \<open>Invalid JSON file\<close>. With a JSON file that is missing, it fails
  with the \<open>IOError\<close> of \<^verbatim>\<open>open\<close> in \<open>ProcessJsonArgs\<close>, which is not a
  configuration error: the check of \<open>GetClientInfoFromFlags\<close> that raises \<open>Cannot find
  file\<close> for the same path is never reached.
\<close>

theorem missing_json_file_IOError:
  "fst (FetchCredentials example_env (example_args\<lparr>args_json := ''missing.json''\<rparr>) None None)
     = Inl (IOError ''missing.json'') \<and>
   \<not> ConfigurationError (IOError ''missing.json'') \<and>
   fst (GetClientInfoFromFlags example_env ''missing.json'')
     = Inl (ValueError ''Cannot find file: missing.json'') \<and>
   fst (FetchCredentials example_env (example_args\<lparr>args_json := ''broken.json''\<rparr>) None None)
     = Inl (ValueError ''Invalid JSON file: broken.json'')"
proof -
  let ?m = "example_args\<lparr>args_json := ''missing.json''\<rparr>"
  let ?b = "example_args\<lparr>args_json := ''broken.json''\<rparr>"
  have 1: "fst (FetchCredentials example_env ?m None None) = Inl (IOError ''missing.json'')"
    by (simp add: fst_FetchCredentials fst_ProcessJsonArgs example_env_def)
  have 2: "fst (GetClientInfoFromFlags example_env ''missing.json'')
     = Inl (ValueError ''Cannot find file: missing.json'')"
    by (simp add: GetClientInfoFromFlags_def example_env_def)
  have 3: "fst (FetchCredentials example_env ?b None None)
     = Inl (ValueError ''Invalid JSON file: broken.json'')"
    by (simp add: fst_FetchCredentials fst_ProcessJsonArgs example_env_def example_loads_def)
  from 1 2 3 show ?thesis by simp
qed

end
